theory Spec2Isabelle
  imports Main
begin

section \<open>The component installer script\<close>

text \<open>
  The script under verification is the Node.js command-line helper of the repository
  (the file that starts with \<^verbatim>\<open>#!/usr/bin/env node\<close>). It reads
  \<^verbatim>\<open>process.argv[2]\<close>, prints a usage error when it is missing, and otherwise
  spawns \<^verbatim>\<open>pnpm dlx shadcn@canary add <name>\<close> in the project root and reacts
  to the child's \<^verbatim>\<open>error\<close> and \<^verbatim>\<open>exit\<close> events.

  Strings are byte lists, as they reach the output streams in UTF-8. Everything the
  script does to the outside world is recorded, in order, in a trace of effects.
\<close>

subsection \<open>Paths\<close>

text \<open>
  \<^verbatim>\<open>fileURLToPath(import.meta.url)\<close> is the absolute, normalised POSIX path of the
  script. Such a path is modelled by the list of its segments: \<^verbatim>\<open>/app/scripts/add-ui.js\<close>
  is \<open>[''app'', ''scripts'', ''add-ui.js'']\<close> and the root \<^verbatim>\<open>/\<close> is \<open>[]\<close>.
  The functions below are those of \<^verbatim>\<open>node:path\<close> on such paths.
\<close>

type_synonym path = "string list"

text \<open>\<^verbatim>\<open>dirname(p)\<close>: the path without its last segment; the root is its own parent.\<close>

definition dirname :: "path \<Rightarrow> path" where
  "dirname p = butlast p"

text \<open>
  \<^verbatim>\<open>path.join(p, s)\<close> for one segment \<open>s\<close>: the joined path is normalised, so
  \<^verbatim>\<open>..\<close> removes the last segment (nothing at the root), and \<^verbatim>\<open>.\<close> and the
  empty segment change nothing.
\<close>

definition path_join :: "path \<Rightarrow> string \<Rightarrow> path" where
  "path_join p s =
     (if s = ''..'' then butlast p
      else if s = ''.'' \<or> s = [] then p
      else p @ [s])"

text \<open>The text of a path, as a template literal renders it.\<close>

fun join_segments :: "string list \<Rightarrow> string" where
  "join_segments [] = []"
| "join_segments [s] = s"
| "join_segments (s # t # ts) = s @ ''/'' @ join_segments (t # ts)"

definition path_string :: "path \<Rightarrow> string" where
  "path_string p = ''/'' @ join_segments p"

subsection \<open>Numbers in template literals\<close>

text \<open>
  The exit code that a child reports is a non-negative integer, or \<^verbatim>\<open>null\<close> when
  the child was ended by a signal (Node emits \<^verbatim>\<open>exit\<close> only for a code that is
  not negative). It is modelled as \<open>nat option\<close>, \<open>None\<close> for \<^verbatim>\<open>null\<close>.
\<close>

fun decimal :: "nat \<Rightarrow> string" where
  "decimal n =
     (if n < 10 then [''0123456789'' ! n]
      else decimal (n div 10) @ [''0123456789'' ! (n mod 10)])"

declare decimal.simps [simp del]

text \<open>\<^verbatim>\<open>${code}\<close>: the decimal digits of a number, the word null for \<^verbatim>\<open>null\<close>.\<close>

definition code_string :: "nat option \<Rightarrow> string" where
  "code_string code = (case code of None \<Rightarrow> ''null'' | Some n \<Rightarrow> decimal n)"

subsection \<open>Effects and process state\<close>

datatype stdio_option = Pipe | Ignore | Inherit

record spawn_options =
  cwd :: path
  stdio :: stdio_option
  shell :: bool

record spawn_call =
  command :: string
  args :: "string list"
  options :: spawn_options

text \<open>
  One line written to standard error or standard output (\<^verbatim>\<open>console.error\<close>,
  \<^verbatim>\<open>console.log\<close>; the newline is implicit), or one call of \<^verbatim>\<open>spawn\<close>.
\<close>

datatype effect = Stderr string | Stdout string | Spawn spawn_call

text \<open>
  The states of the process: the script has not looked at its argument yet; the child
  has been spawned and the two handlers, which close over \<^verbatim>\<open>componentName\<close>, are
  registered; the process has ended with an exit status.
\<close>

datatype phase = AwaitingArgument | Delegating string | Terminal nat

record proc =
  phase :: phase
  trace :: "effect list"

definition initial :: proc where
  "initial = \<lparr>phase = AwaitingArgument, trace = []\<rparr>"

fun is_spawn :: "effect \<Rightarrow> bool" where
  "is_spawn (Spawn c) = True"
| "is_spawn e = False"

fun is_stderr :: "effect \<Rightarrow> bool" where
  "is_stderr (Stderr s) = True"
| "is_stderr e = False"

fun is_terminal :: "phase \<Rightarrow> bool" where
  "is_terminal (Terminal n) = True"
| "is_terminal ph = False"

definition console_log :: "string \<Rightarrow> proc \<Rightarrow> proc" where
  "console_log s p = p\<lparr>trace := trace p @ [Stdout s]\<rparr>"

definition console_error :: "string \<Rightarrow> proc \<Rightarrow> proc" where
  "console_error s p = p\<lparr>trace := trace p @ [Stderr s]\<rparr>"

text \<open>
  \<^verbatim>\<open>process.exit(code)\<close> ends the process at once. Node takes \<^verbatim>\<open>null\<close> (and
  \<^verbatim>\<open>undefined\<close>) for "no code given" and ends with \<^verbatim>\<open>process.exitCode\<close>, which
  this script never sets, that is with status 0.
\<close>

definition process_exit :: "nat option \<Rightarrow> proc \<Rightarrow> proc" where
  "process_exit code p = p\<lparr>phase := Terminal (case code of None \<Rightarrow> 0 | Some n \<Rightarrow> n)\<rparr>"

text \<open>
  \<^verbatim>\<open>spawn(command, args, options)\<close> followed by the registration of the handlers,
  which see the variable \<^verbatim>\<open>componentName\<close>.
\<close>

definition spawn :: "string \<Rightarrow> string list \<Rightarrow> spawn_options \<Rightarrow> string \<Rightarrow> proc \<Rightarrow> proc" where
  "spawn c as opts componentName p =
     p\<lparr>phase := Delegating componentName,
       trace := trace p @ [Spawn \<lparr>command = c, args = as, options = opts\<rparr>]\<rparr>"

subsection \<open>The script\<close>

text \<open>The non-ASCII signs of the messages, as their UTF-8 bytes.\<close>

definition cross_mark :: string where
  "cross_mark = [CHR 0xE2, CHR 0x9D, CHR 0x8C]"

definition check_mark :: string where
  "check_mark = [CHR 0xE2, CHR 0x9C, CHR 0x85]"

definition wrench :: string where
  "wrench = [CHR 0xF0, CHR 0x9F, CHR 0x94, CHR 0xA7]"

definition folder :: string where
  "folder = [CHR 0xF0, CHR 0x9F, CHR 0x93, CHR 0x81]"

text \<open>\<^verbatim>\<open>process.argv[2]\<close>: \<open>None\<close> is \<^verbatim>\<open>undefined\<close>, read past the end of the array.\<close>

definition componentName :: "string list \<Rightarrow> string option" where
  "componentName argv = (if 2 < length argv then Some (argv ! 2) else None)"

text \<open>\<^verbatim>\<open>!componentName\<close>: true of \<^verbatim>\<open>undefined\<close> and of the empty string.\<close>

definition falsy :: "string option \<Rightarrow> bool" where
  "falsy v = (case v of None \<Rightarrow> True | Some s \<Rightarrow> s = [])"

text \<open>The body of \<^verbatim>\<open>if (!componentName) { ... }\<close>.\<close>

definition usage_error :: "proc \<Rightarrow> proc" where
  "usage_error p =
     process_exit (Some 1)
       (console_log ''Example: npm run ui:add button''
         (console_log ''Usage: npm run ui:add <component-name>''
           (console_error (cross_mark @ '' Error: Please specify a component name'') p)))"

text \<open>The rest of the script, from \<^verbatim>\<open>const projectRoot\<close> to the call of \<^verbatim>\<open>spawn\<close>.\<close>

definition delegate :: "string \<Rightarrow> path \<Rightarrow> proc \<Rightarrow> proc" where
  "delegate name dir p =
     (let projectRoot = path_join dir ''..'' in
      spawn ''pnpm'' [''dlx'', ''shadcn@canary'', ''add'', name]
        \<lparr>cwd = projectRoot, stdio = Inherit, shell = True\<rparr> name
        (console_log (folder @ '' Working directory: '' @ path_string projectRoot)
          (console_log (wrench @ '' Adding shadcn component: '' @ name) p)))"

text \<open>
  The top level of the script, run on the argument vector and on the path of the script
  file (\<^verbatim>\<open>__filename\<close>).
\<close>

definition main :: "string list \<Rightarrow> path \<Rightarrow> proc" where
  "main argv filename =
     (let dir = dirname filename in
      case componentName argv of
        None \<Rightarrow> usage_error initial
      | Some name \<Rightarrow>
          if falsy (Some name) then usage_error initial
          else delegate name dir initial)"

subsection \<open>The handlers and the events of the child\<close>

text \<open>
  \<open>Error m\<close> is the \<^verbatim>\<open>error\<close> event with \<^verbatim>\<open>error.message = m\<close>: the child could
  not be started. \<open>Exit code\<close> is the \<^verbatim>\<open>exit\<close> event.
\<close>

datatype child_event = Error string | Exit "nat option"

text \<open>
  \<^verbatim>\<open>console.error(a, b)\<close> with two strings, the first without a format directive,
  writes them with one space between.
\<close>

definition on_error :: "string \<Rightarrow> proc \<Rightarrow> proc" where
  "on_error message p =
     process_exit (Some 1)
       (console_error (cross_mark @ '' Error running command:'' @ '' '' @ message) p)"

definition on_exit :: "string \<Rightarrow> nat option \<Rightarrow> proc \<Rightarrow> proc" where
  "on_exit name code p =
     (if code = Some 0
      then console_log (check_mark @ '' Successfully added '' @ name @ '' component!'') p
      else process_exit code
             (console_error (cross_mark @ '' Command failed with exit code '' @ code_string code) p))"

text \<open>
  When the \<^verbatim>\<open>exit\<close> handler returns without ending the process, the child was the
  last thing keeping the event loop alive (its streams are inherited, not piped), so
  the process ends by itself, with status 0.
\<close>

definition loop_drained :: "proc \<Rightarrow> proc" where
  "loop_drained p = (if is_terminal (phase p) then p else p\<lparr>phase := Terminal 0\<rparr>)"

text \<open>
  An event reaches a handler only while the process is waiting for the child; a process
  that has ended runs nothing.
\<close>

definition deliver :: "proc \<Rightarrow> child_event \<Rightarrow> proc" where
  "deliver p ev =
     (case phase p of
        Delegating name \<Rightarrow>
          (case ev of
             Error message \<Rightarrow> on_error message p
           | Exit code \<Rightarrow> loop_drained (on_exit name code p))
      | _ \<Rightarrow> p)"

text \<open>
  A whole run: the script, then the events of the child in the order of their arrival.
  With no event the process is still waiting for its child.
\<close>

definition run :: "string list \<Rightarrow> path \<Rightarrow> child_event list \<Rightarrow> proc" where
  "run argv filename evs = foldl deliver (main argv filename) evs"

subsection \<open>What the child is started with\<close>

text \<open>
  The script passes \<^verbatim>\<open>shell: true\<close>. Node then does not start the command itself:
  it joins the command and its arguments with single spaces, without quoting, and starts
  \<^verbatim>\<open>/bin/sh -c\<close> on that line. The shell, not the script, decides which words the
  tool receives.
\<close>

fun join_words :: "string list \<Rightarrow> string" where
  "join_words [] = []"
| "join_words [w] = w"
| "join_words (w # v # vs) = w @ '' '' @ join_words (v # vs)"

definition shell_line :: "spawn_call \<Rightarrow> string" where
  "shell_line c = join_words (command c # args c)"

text \<open>
  Characters that the shell takes literally wherever they stand. Blanks, quotes and the
  shell's operators and expansion characters are not among them.
\<close>

definition plain_char :: "char \<Rightarrow> bool" where
  "plain_char c =
     (c \<in> set ''abcdefghijklmnopqrstuvwxyzABCDEFGHIJKLMNOPQRSTUVWXYZ0123456789-_./@:'')"

text \<open>Splitting a line into fields at its spaces; \<open>w\<close> is the field being read.\<close>

fun sh_split :: "string \<Rightarrow> string \<Rightarrow> string list" where
  "sh_split w [] = (if w = [] then [] else [w])"
| "sh_split w (c # cs) =
     (if c = CHR '' '' then (if w = [] then sh_split [] cs else w # sh_split [] cs)
      else sh_split (w @ [c]) cs)"

text \<open>
  The words of a simple command, for a line made of plain characters and spaces only.
  Any other line is left to the shell's grammar, which is not modelled: \<open>None\<close>.
\<close>

definition sh_fields :: "string \<Rightarrow> string list option" where
  "sh_fields line =
     (if list_all (\<lambda>c. plain_char c \<or> c = CHR '' '') line then Some (sh_split [] line)
      else None)"

text \<open>The argument vector with which the tool is started by a call of \<^verbatim>\<open>spawn\<close>.\<close>

definition child_argv :: "spawn_call \<Rightarrow> string list option" where
  "child_argv c =
     (if shell (options c) then sh_fields (shell_line c) else Some (command c # args c))"



section \<open>Properties of the installer\<close>

subsection \<open>Auxiliary facts\<close>

lemmas handler_defs = deliver_def on_error_def on_exit_def loop_drained_def
  console_log_def console_error_def process_exit_def


text \<open>
A process that has ended ignores every later event.
\<close>

lemma terminal_absorbs: "is_terminal (phase p) \<Longrightarrow> foldl deliver p evs = p"
proof (induction evs)
  case Nil
  show ?case by simp
next
  case (Cons e evs)
  from Cons.prems have "deliver p e = p"
    by (cases "phase p") (simp_all add: deliver_def)
  with Cons show ?case by simp
qed

text \<open>
While the process waits for its child, either event ends it.
\<close>

lemma deliver_terminal: "phase p = Delegating X \<Longrightarrow> is_terminal (phase (deliver p e))"
  by (cases e) (simp_all add: handler_defs)

text \<open>
The state in which the top level of the script leaves the process.
\<close>

lemma main_phase:
  "phase (main argv f) =
     (case componentName argv of None \<Rightarrow> Terminal 1
      | Some X \<Rightarrow> if X = [] then Terminal 1 else Delegating X)"
  by (simp add: main_def usage_error_def delegate_def spawn_def console_log_def
      console_error_def process_exit_def falsy_def Let_def split: option.splits)

lemma main_trace_usage:
  "falsy (componentName argv) \<Longrightarrow> main argv f =
     \<lparr>phase = Terminal 1,
      trace = [Stderr (cross_mark @ '' Error: Please specify a component name''),
               Stdout ''Usage: npm run ui:add <component-name>'',
               Stdout ''Example: npm run ui:add button'']\<rparr>"
  by (simp add: main_def usage_error_def console_log_def
      console_error_def process_exit_def falsy_def initial_def Let_def split: option.splits)

lemma main_delegates:
  "componentName argv = Some X \<Longrightarrow> X \<noteq> [] \<Longrightarrow> main argv f =
     \<lparr>phase = Delegating X,
      trace = [Stdout (wrench @ '' Adding shadcn component: '' @ X),
               Stdout (folder @ '' Working directory: '' @ path_string (butlast (butlast f))),
               Spawn \<lparr>command = ''pnpm'', args = [''dlx'', ''shadcn@canary'', ''add'', X],
                      options = \<lparr>cwd = butlast (butlast f), stdio = Inherit, shell = True\<rparr>\<rparr>]\<rparr>"
  by (simp add: main_def delegate_def spawn_def console_log_def
      falsy_def initial_def dirname_def path_join_def Let_def)



text \<open>Only the first event after a delegation matters.\<close>

lemma run_first_event:
  "phase (main argv f) = Delegating X \<Longrightarrow>
     run argv f (e # evs) = deliver (main argv f) e"
  by (simp add: run_def terminal_absorbs deliver_terminal)

lemma run_no_delegation:
  "is_terminal (phase (main argv f)) \<Longrightarrow> run argv f evs = main argv f"
  by (simp add: run_def terminal_absorbs)

lemma componentName_positional:
  "componentName (node # script # X # rest) = Some X"
  by (simp add: componentName_def)

lemma componentName_none: "componentName [node, script] = None"
  by (simp add: componentName_def)

text \<open>Fields of a line: a word without a space is one field.\<close>

lemma sh_split_word:
  "CHR '' '' \<notin> set X \<Longrightarrow> sh_split w X = (if w @ X = [] then [] else [w @ X])"
  by (induction X arbitrary: w) auto

lemma plain_no_space: "list_all plain_char X \<Longrightarrow> CHR '' '' \<notin> set X"
  by (auto simp add: list_all_iff plain_char_def)

text \<open>The words that the shell hands on when the component name is a plain word.\<close>

lemma pnpm_fields:
  assumes "X \<noteq> []" and "list_all plain_char X"
  shows "child_argv \<lparr>command = ''pnpm'', args = [''dlx'', ''shadcn@canary'', ''add'', X],
                      options = \<lparr>cwd = d, stdio = Inherit, shell = True\<rparr>\<rparr> =
         Some [''pnpm'', ''dlx'', ''shadcn@canary'', ''add'', X]"
proof -
  have sp: "CHR '' '' \<notin> set X" using assms(2) by (rule plain_no_space)
  have ok: "list_all (\<lambda>c. plain_char c \<or> c = CHR '' '') X"
    using assms(2) by (simp add: list_all_iff)
  have pre: "list_all (\<lambda>c. plain_char c \<or> c = CHR '' '') ''pnpm dlx shadcn@canary add ''"
    by (simp add: plain_char_def)
  have line: "shell_line \<lparr>command = ''pnpm'', args = [''dlx'', ''shadcn@canary'', ''add'', X],
                      options = \<lparr>cwd = d, stdio = Inherit, shell = True\<rparr>\<rparr> =
      ''pnpm dlx shadcn@canary add '' @ X"
    by (simp add: shell_line_def)
  have split: "sh_split [] (''pnpm dlx shadcn@canary add '' @ X) =
      [''pnpm'', ''dlx'', ''shadcn@canary'', ''add'', X]"
    using sp assms(1) by (simp add: sh_split_word)
  have "list_all (\<lambda>c. plain_char c \<or> c = CHR '' '') (''pnpm dlx shadcn@canary add '' @ X)"
    using pre ok by (simp only: list_all_append)
  with line split show ?thesis
    by (simp only: child_argv_def sh_fields_def) simp
qed

subsection \<open>Delegation\<close>

text \<open>
  C1, as amended. For every invocation whose first argument \<open>X\<close> is a non-empty word
  of plain characters, the script announces the component and the working directory,
  then calls \<^verbatim>\<open>spawn\<close> once: the command is \<^verbatim>\<open>pnpm\<close>, the argument list ends with
  \<open>X\<close>, the working directory is the parent of the directory that contains the script
  file, the standard streams are inherited, and the process then waits for the child.
  The shell through which the call goes starts the tool with \<open>X\<close> as its last argument.
\<close>

theorem delegated_command:
  assumes "X \<noteq> []" and "list_all plain_char X"
  shows "main (node # script # X # rest) filename =
     \<lparr>phase = Delegating X,
      trace = [Stdout (wrench @ '' Adding shadcn component: '' @ X),
               Stdout (folder @ '' Working directory: '' @
                         path_string (butlast (butlast filename))),
               Spawn \<lparr>command = ''pnpm'',
                      args = [''dlx'', ''shadcn@canary'', ''add'', X],
                      options = \<lparr>cwd = butlast (butlast filename),
                                 stdio = Inherit, shell = True\<rparr>\<rparr>]\<rparr> \<and>
   child_argv \<lparr>command = ''pnpm'',
               args = [''dlx'', ''shadcn@canary'', ''add'', X],
               options = \<lparr>cwd = butlast (butlast filename),
                          stdio = Inherit, shell = True\<rparr>\<rparr> =
     Some [''pnpm'', ''dlx'', ''shadcn@canary'', ''add'', X]"
proof -
  have "componentName (node # script # X # rest) = Some X"
    by (rule componentName_positional)
  then have m: "main (node # script # X # rest) filename =
     \<lparr>phase = Delegating X,
      trace = [Stdout (wrench @ '' Adding shadcn component: '' @ X),
               Stdout (folder @ '' Working directory: '' @
                         path_string (butlast (butlast filename))),
               Spawn \<lparr>command = ''pnpm'',
                      args = [''dlx'', ''shadcn@canary'', ''add'', X],
                      options = \<lparr>cwd = butlast (butlast filename),
                                 stdio = Inherit, shell = True\<rparr>\<rparr>]\<rparr>"
    using assms(1) by (rule main_delegates)
  from m pnpm_fields [OF assms] show ?thesis by (rule conjI)
qed

theorem delegated_command_witness:
  "''button'' \<noteq> [] \<and> list_all plain_char ''button'' \<and>
   main [''node'', ''/app/scripts/add-ui.js'', ''button'']
        [''app'', ''scripts'', ''add-ui.js''] =
     \<lparr>phase = Delegating ''button'',
      trace = [Stdout (wrench @ '' Adding shadcn component: button''),
               Stdout (folder @ '' Working directory: /app''),
               Spawn \<lparr>command = ''pnpm'',
                      args = [''dlx'', ''shadcn@canary'', ''add'', ''button''],
                      options = \<lparr>cwd = [''app''], stdio = Inherit, shell = True\<rparr>\<rparr>]\<rparr> \<and>
   child_argv \<lparr>command = ''pnpm'',
               args = [''dlx'', ''shadcn@canary'', ''add'', ''button''],
               options = \<lparr>cwd = [''app''], stdio = Inherit, shell = True\<rparr>\<rparr> =
     Some [''pnpm'', ''dlx'', ''shadcn@canary'', ''add'', ''button'']"
proof -
  have h1: "''button'' \<noteq> []" by simp
  have h2: "list_all plain_char ''button''" by (simp add: plain_char_def)
  from delegated_command [OF h1 h2, of "''node''" "''/app/scripts/add-ui.js''" "[]"
      "[''app'', ''scripts'', ''add-ui.js'']"] h2
  show ?thesis by (simp add: path_string_def)
qed

text \<open>
  C1 as it is written speaks of every argument. It fails on the empty string: the guard
  \<^verbatim>\<open>!componentName\<close> holds, nothing is spawned and the process ends with status 1.
  It fails on an argument that is one space as well: the call of \<^verbatim>\<open>spawn\<close> is made
  with the space as its last argument, but the line given to the shell is not quoted and
  the tool is started without that argument.
\<close>

theorem empty_argument_not_delegated:
  "filter is_spawn (trace (main [''node'', ''/app/scripts/add-ui.js'', '''']
        [''app'', ''scripts'', ''add-ui.js''])) = [] \<and>
   phase (main [''node'', ''/app/scripts/add-ui.js'', '''']
        [''app'', ''scripts'', ''add-ui.js'']) = Terminal 1 \<and>
   last (trace (main [''node'', ''/app/scripts/add-ui.js'', '' '']
        [''app'', ''scripts'', ''add-ui.js''])) =
     Spawn \<lparr>command = ''pnpm'', args = [''dlx'', ''shadcn@canary'', ''add'', '' ''],
            options = \<lparr>cwd = [''app''], stdio = Inherit, shell = True\<rparr>\<rparr> \<and>
   child_argv \<lparr>command = ''pnpm'', args = [''dlx'', ''shadcn@canary'', ''add'', '' ''],
               options = \<lparr>cwd = [''app''], stdio = Inherit, shell = True\<rparr>\<rparr> =
     Some [''pnpm'', ''dlx'', ''shadcn@canary'', ''add'']"
proof -
  have a: "filter is_spawn (trace (main [''node'', ''/app/scripts/add-ui.js'', '''']
        [''app'', ''scripts'', ''add-ui.js''])) = [] \<and>
   phase (main [''node'', ''/app/scripts/add-ui.js'', '''']
        [''app'', ''scripts'', ''add-ui.js'']) = Terminal 1"
    by (simp add: main_trace_usage componentName_def falsy_def)
  have b: "last (trace (main [''node'', ''/app/scripts/add-ui.js'', '' '']
        [''app'', ''scripts'', ''add-ui.js''])) =
     Spawn \<lparr>command = ''pnpm'', args = [''dlx'', ''shadcn@canary'', ''add'', '' ''],
            options = \<lparr>cwd = [''app''], stdio = Inherit, shell = True\<rparr>\<rparr>"
    by (simp add: main_delegates componentName_def)
  have c: "child_argv \<lparr>command = ''pnpm'', args = [''dlx'', ''shadcn@canary'', ''add'', '' ''],
               options = \<lparr>cwd = [''app''], stdio = Inherit, shell = True\<rparr>\<rparr> =
     Some [''pnpm'', ''dlx'', ''shadcn@canary'', ''add'']"
    by (simp add: child_argv_def sh_fields_def shell_line_def plain_char_def)
  from a b c show ?thesis by simp
qed

text \<open>
  C2. An invocation with no argument writes the usage error to standard error, the usage
  hint and the example to standard output, and ends with status 1; no child is spawned,
  whatever events are offered afterwards.
\<close>

theorem missing_argument:
  "run [node, script] filename evs =
     \<lparr>phase = Terminal 1,
      trace = [Stderr (cross_mark @ '' Error: Please specify a component name''),
               Stdout ''Usage: npm run ui:add <component-name>'',
               Stdout ''Example: npm run ui:add button'']\<rparr> \<and>
   filter is_spawn (trace (run [node, script] filename evs)) = []"
proof -
  have m: "main [node, script] filename =
     \<lparr>phase = Terminal 1,
      trace = [Stderr (cross_mark @ '' Error: Please specify a component name''),
               Stdout ''Usage: npm run ui:add <component-name>'',
               Stdout ''Example: npm run ui:add button'']\<rparr>"
    by (simp add: main_trace_usage componentName_none falsy_def)
  then have "run [node, script] filename evs = main [node, script] filename"
    by (simp add: run_no_delegation)
  with m show ?thesis by simp
qed

text \<open>
  C3. When the script has delegated for \<open>X\<close> and the child exits with a code \<open>N\<close>
  other than 0, one line that ends with the decimal digits of \<open>N\<close> is written to
  standard error and the process ends with status \<open>N\<close>.
\<close>

theorem nonzero_exit_code:
  assumes "phase (main argv filename) = Delegating X" and "N \<noteq> 0"
  shows "run argv filename (Exit (Some N) # evs) =
     \<lparr>phase = Terminal N,
      trace = trace (main argv filename) @
        [Stderr (cross_mark @ '' Command failed with exit code '' @ decimal N)]\<rparr>"
  using assms by (simp add: run_first_event handler_defs code_string_def)

theorem nonzero_exit_code_witness:
  "phase (main [''node'', ''/app/scripts/add-ui.js'', ''bogus-widget'']
        [''app'', ''scripts'', ''add-ui.js'']) = Delegating ''bogus-widget'' \<and>
   (2::nat) \<noteq> 0 \<and>
   run [''node'', ''/app/scripts/add-ui.js'', ''bogus-widget'']
       [''app'', ''scripts'', ''add-ui.js''] [Exit (Some 2)] =
     \<lparr>phase = Terminal 2,
      trace = [Stdout (wrench @ '' Adding shadcn component: bogus-widget''),
               Stdout (folder @ '' Working directory: /app''),
               Spawn \<lparr>command = ''pnpm'',
                      args = [''dlx'', ''shadcn@canary'', ''add'', ''bogus-widget''],
                      options = \<lparr>cwd = [''app''], stdio = Inherit, shell = True\<rparr>\<rparr>,
               Stderr (cross_mark @ '' Command failed with exit code 2'')]\<rparr>"
proof -
  let ?argv = "[''node'', ''/app/scripts/add-ui.js'', ''bogus-widget'']"
  let ?f = "[''app'', ''scripts'', ''add-ui.js'']"
  have m: "main ?argv ?f =
     \<lparr>phase = Delegating ''bogus-widget'',
      trace = [Stdout (wrench @ '' Adding shadcn component: bogus-widget''),
               Stdout (folder @ '' Working directory: /app''),
               Spawn \<lparr>command = ''pnpm'',
                      args = [''dlx'', ''shadcn@canary'', ''add'', ''bogus-widget''],
                      options = \<lparr>cwd = [''app''], stdio = Inherit, shell = True\<rparr>\<rparr>]\<rparr>"
    by (simp add: main_delegates componentName_def path_string_def)
  then have h: "phase (main ?argv ?f) = Delegating ''bogus-widget''" by simp
  have d: "decimal 2 = ''2''" by (simp add: decimal.simps)
  from nonzero_exit_code [OF h, of 2 "[]"] h m d show ?thesis by simp
qed

text \<open>
  C4. When the script has delegated for \<open>X\<close> and the child exits with code 0, the
  success line naming \<open>X\<close> is written to standard output and the process ends with
  status 0.
\<close>

theorem zero_exit_code:
  assumes "phase (main argv filename) = Delegating X"
  shows "run argv filename (Exit (Some 0) # evs) =
     \<lparr>phase = Terminal 0,
      trace = trace (main argv filename) @
        [Stdout (check_mark @ '' Successfully added '' @ X @ '' component!'')]\<rparr>"
  using assms by (simp add: run_first_event handler_defs)

theorem zero_exit_code_witness:
  "phase (main [''node'', ''/app/scripts/add-ui.js'', ''button'']
        [''app'', ''scripts'', ''add-ui.js'']) = Delegating ''button'' \<and>
   run [''node'', ''/app/scripts/add-ui.js'', ''button'']
       [''app'', ''scripts'', ''add-ui.js''] [Exit (Some 0)] =
     \<lparr>phase = Terminal 0,
      trace = [Stdout (wrench @ '' Adding shadcn component: button''),
               Stdout (folder @ '' Working directory: /app''),
               Spawn \<lparr>command = ''pnpm'',
                      args = [''dlx'', ''shadcn@canary'', ''add'', ''button''],
                      options = \<lparr>cwd = [''app''], stdio = Inherit, shell = True\<rparr>\<rparr>,
               Stdout (check_mark @ '' Successfully added button component!'')]\<rparr>"
proof -
  let ?argv = "[''node'', ''/app/scripts/add-ui.js'', ''button'']"
  let ?f = "[''app'', ''scripts'', ''add-ui.js'']"
  have m: "main ?argv ?f =
     \<lparr>phase = Delegating ''button'',
      trace = [Stdout (wrench @ '' Adding shadcn component: button''),
               Stdout (folder @ '' Working directory: /app''),
               Spawn \<lparr>command = ''pnpm'',
                      args = [''dlx'', ''shadcn@canary'', ''add'', ''button''],
                      options = \<lparr>cwd = [''app''], stdio = Inherit, shell = True\<rparr>\<rparr>]\<rparr>"
    by (simp add: main_delegates componentName_def path_string_def)
  then have h: "phase (main ?argv ?f) = Delegating ''button''" by simp
  from zero_exit_code [OF h, of "[]"] h m show ?thesis by simp
qed




text \<open>
  C6 says that the process ends with status 1 when the child is ended by a signal. The
  \<^verbatim>\<open>exit\<close> handler then receives \<^verbatim>\<open>null\<close>: it reports a failure with the word
  null in place of a code and calls \<^verbatim>\<open>process.exit(null)\<close>, which ends the process
  with status 0.
\<close>

theorem signal_exit_status:
  "run [''node'', ''/app/scripts/add-ui.js'', ''button'']
       [''app'', ''scripts'', ''add-ui.js''] [Exit None] =
     \<lparr>phase = Terminal 0,
      trace = [Stdout (wrench @ '' Adding shadcn component: button''),
               Stdout (folder @ '' Working directory: /app''),
               Spawn \<lparr>command = ''pnpm'',
                      args = [''dlx'', ''shadcn@canary'', ''add'', ''button''],
                      options = \<lparr>cwd = [''app''], stdio = Inherit, shell = True\<rparr>\<rparr>,
               Stderr (cross_mark @ '' Command failed with exit code null'')]\<rparr>"
proof -
  let ?argv = "[''node'', ''/app/scripts/add-ui.js'', ''button'']"
  let ?f = "[''app'', ''scripts'', ''add-ui.js'']"
  have m: "main ?argv ?f =
     \<lparr>phase = Delegating ''button'',
      trace = [Stdout (wrench @ '' Adding shadcn component: button''),
               Stdout (folder @ '' Working directory: /app''),
               Spawn \<lparr>command = ''pnpm'',
                      args = [''dlx'', ''shadcn@canary'', ''add'', ''button''],
                      options = \<lparr>cwd = [''app''], stdio = Inherit, shell = True\<rparr>\<rparr>]\<rparr>"
    by (simp add: main_delegates componentName_def path_string_def)
  then have "run ?argv ?f [Exit None] = deliver (main ?argv ?f) (Exit None)"
    by (simp add: run_first_event)
  with m show ?thesis by (simp add: handler_defs code_string_def)
qed

text \<open>Counting the children spawned and the lines on standard error.\<close>

lemma main_spawns:
  "length (filter is_spawn (trace (main argv f))) = (if falsy (componentName argv) then 0 else 1)"
  by (simp add: main_def usage_error_def delegate_def spawn_def console_log_def
      console_error_def process_exit_def falsy_def initial_def Let_def split: option.splits)

lemma main_stderr:
  "length (filter is_stderr (trace (main argv f))) = (if falsy (componentName argv) then 1 else 0)"
  by (simp add: main_def usage_error_def delegate_def spawn_def console_log_def
      console_error_def process_exit_def falsy_def initial_def Let_def split: option.splits)

lemma deliver_spawns:
  "filter is_spawn (trace (deliver p e)) = filter is_spawn (trace p)"
  by (cases "phase p"; cases e) (simp_all add: handler_defs)

lemma deliver_stderr:
  "phase p = Delegating X \<Longrightarrow>
     length (filter is_stderr (trace (deliver p e))) =
     length (filter is_stderr (trace p)) + (if e = Exit (Some 0) then 0 else 1)"
  by (cases e) (simp_all add: handler_defs)

lemma main_cases:
  "(falsy (componentName argv) \<and> phase (main argv f) = Terminal 1) \<or>
   (\<not> falsy (componentName argv) \<and> (\<exists>X. phase (main argv f) = Delegating X))"
  by (simp add: main_phase falsy_def split: option.splits)

lemma run_spawns:
  "filter is_spawn (trace (run argv f evs)) = filter is_spawn (trace (main argv f))"
  unfolding run_def
proof (induction evs rule: rev_induct)
  case Nil
  show ?case by simp
next
  case (snoc e evs)
  then show ?case by (simp add: deliver_spawns)
qed

text \<open>
  C7. The top level of the script leaves the process either ended with status 1 (missing
  argument) or waiting for its child. The first event of the child ends the process, and
  later events change nothing: nothing is retried. No run spawns more than one child.
  A run writes exactly one line to standard error when it fails (missing argument,
  launch failure, or an exit code other than 0) and none otherwise.
\<close>

theorem one_delegation_no_retry:
  "phase (main argv filename) =
     (case componentName argv of
        None \<Rightarrow> Terminal 1
      | Some X \<Rightarrow> if X = [] then Terminal 1 else Delegating X) \<and>
   is_terminal (phase (run argv filename (e # evs))) \<and>
   run argv filename (e # evs) = run argv filename [e] \<and>
   length (filter is_spawn (trace (run argv filename evs))) \<le> 1 \<and>
   length (filter is_stderr (trace (run argv filename []))) =
     (if falsy (componentName argv) then 1 else 0) \<and>
   length (filter is_stderr (trace (run argv filename (e # evs)))) =
     (if falsy (componentName argv) \<or> e \<noteq> Exit (Some 0) then 1 else 0)"
proof -
  have spawns: "length (filter is_spawn (trace (run argv filename evs))) \<le> 1"
    by (simp add: run_spawns main_spawns)
  have idle: "length (filter is_stderr (trace (run argv filename []))) =
     (if falsy (componentName argv) then 1 else 0)"
    by (simp add: run_def main_stderr)
  from main_cases [of argv filename] show ?thesis
  proof
    assume a: "falsy (componentName argv) \<and> phase (main argv filename) = Terminal 1"
    then have "\<And>es. run argv filename es = main argv filename"
      by (simp add: run_no_delegation)
    with a spawns idle show ?thesis
      by (simp add: main_phase main_stderr)
  next
    assume "\<not> falsy (componentName argv) \<and> (\<exists>X. phase (main argv filename) = Delegating X)"
    then obtain X where nf: "\<not> falsy (componentName argv)"
      and d: "phase (main argv filename) = Delegating X" by blast
    have r: "\<And>es. run argv filename (e # es) = deliver (main argv filename) e"
      using d by (rule run_first_event)
    from r d nf spawns idle show ?thesis
      by (simp add: main_phase deliver_terminal deliver_stderr main_stderr)
  qed
qed

theorem one_delegation_no_retry_witness:
  "Error ''spawn /bin/sh ENOENT'' \<noteq> Exit (Some 0) \<and>
   is_terminal (phase (run [''node'', ''/app/scripts/add-ui.js'', ''button'']
       [''app'', ''scripts'', ''add-ui.js''] [Error ''spawn /bin/sh ENOENT'', Exit (Some 0)])) \<and>
   run [''node'', ''/app/scripts/add-ui.js'', ''button'']
       [''app'', ''scripts'', ''add-ui.js''] [Error ''spawn /bin/sh ENOENT'', Exit (Some 0)] =
   run [''node'', ''/app/scripts/add-ui.js'', ''button'']
       [''app'', ''scripts'', ''add-ui.js''] [Error ''spawn /bin/sh ENOENT''] \<and>
   length (filter is_stderr (trace (run [''node'', ''/app/scripts/add-ui.js'', ''button'']
       [''app'', ''scripts'', ''add-ui.js''] [Error ''spawn /bin/sh ENOENT'', Exit (Some 0)]))) = 1"
proof -
  let ?argv = "[''node'', ''/app/scripts/add-ui.js'', ''button'']"
  let ?f = "[''app'', ''scripts'', ''add-ui.js'']"
  let ?e = "Error ''spawn /bin/sh ENOENT''"
  note t = one_delegation_no_retry [of ?argv ?f ?e "[Exit (Some 0)]"]
  have a: "is_terminal (phase (run ?argv ?f [?e, Exit (Some 0)]))"
    using t by blast
  have b: "run ?argv ?f [?e, Exit (Some 0)] = run ?argv ?f [?e]"
    using t by blast
  have "length (filter is_stderr (trace (run ?argv ?f [?e, Exit (Some 0)]))) =
     (if falsy (componentName ?argv) \<or> ?e \<noteq> Exit (Some 0) then 1 else 0)"
    using t by blast
  then have c: "length (filter is_stderr (trace (run ?argv ?f [?e, Exit (Some 0)]))) = 1"
    by simp
  have d: "?e \<noteq> Exit (Some 0)" by simp
  from a b c d show ?thesis by blast
qed

text \<open>
  C9. An invocation whose first argument is the empty string writes the usage error to
  standard error, the usage hint and the example to standard output, and ends with
  status 1 without spawning a child, whatever arguments and events follow: it behaves
  exactly as an invocation with no argument.
\<close>

theorem empty_argument_is_missing_argument:
  "run (node # script # '''' # rest) filename evs =
     \<lparr>phase = Terminal 1,
      trace = [Stderr (cross_mark @ '' Error: Please specify a component name''),
               Stdout ''Usage: npm run ui:add <component-name>'',
               Stdout ''Example: npm run ui:add button'']\<rparr> \<and>
   filter is_spawn (trace (run (node # script # '''' # rest) filename evs)) = [] \<and>
   run (node # script # '''' # rest) filename evs = run [node, script] filename evs"
proof -
  let ?usage = "\<lparr>phase = Terminal 1,
      trace = [Stderr (cross_mark @ '' Error: Please specify a component name''),
               Stdout ''Usage: npm run ui:add <component-name>'',
               Stdout ''Example: npm run ui:add button'']\<rparr>"
  have m: "main (node # script # '''' # rest) filename = ?usage"
    by (simp add: main_trace_usage componentName_positional falsy_def)
  have n: "main [node, script] filename = ?usage"
    by (simp add: main_trace_usage componentName_none falsy_def)
  from m have r: "run (node # script # '''' # rest) filename evs = ?usage"
    by (simp add: run_no_delegation)
  from n have s: "run [node, script] filename evs = ?usage"
    by (simp add: run_no_delegation)
  from r s show ?thesis by simp
qed

text \<open>
  C10. Arguments after the first are ignored: two invocations that agree on the first
  argument have the same run.
\<close>

theorem later_arguments_ignored:
  "run (node # script # X # rest) filename evs =
   run (node # script # X # rest') filename evs"
  by (simp add: run_def main_def componentName_def)

end
